theory Spec2Isabelle
  imports Main "HOL-Library.Word"
begin

section \<open>Dispatching a big.matrix to RcppArmadillo\<close>

text \<open>
  The file \<^verbatim>\<open>2014-07-25-using-bigmemory-with-rcpparmadillo.cpp\<close> holds two functions
  named \<^verbatim>\<open>someArmaFunction\<close>: a function template over the element type whose body is
  a placeholder comment, and the exported dispatcher, which unwraps an external pointer to
  a \<^verbatim>\<open>BigMatrix\<close>, reads its type code and forwards an \<^verbatim>\<open>arma::Mat\<close> built over the
  matrix's own memory to the template instantiated at \<^verbatim>\<open>char\<close>, \<^verbatim>\<open>short\<close>,
  \<^verbatim>\<open>int\<close> or \<^verbatim>\<open>double\<close>.
\<close>

subsection \<open>Data\<close>

type_synonym addr = nat
type_synonym byte = "8 word"

text \<open>An R object handle (\<^verbatim>\<open>SEXP\<close>) is identified by a number.\<close>

type_synonym SEXP = nat

text \<open>The four C element types the dispatcher instantiates the template at.\<close>

datatype ctype = T_char | T_short | T_int | T_double

text \<open>
  Their sizes and kinds are those of the C implementation, which the file does not fix.
  They are taken from the x86-64 ABIs: \<^verbatim>\<open>char\<close> is a signed byte, \<^verbatim>\<open>short\<close> has
  two bytes, \<^verbatim>\<open>int\<close> four, and \<^verbatim>\<open>double\<close> is the eight-byte IEEE format.
\<close>

fun sizeof :: "ctype \<Rightarrow> nat" where
  "sizeof T_char = 1"
| "sizeof T_short = 2"
| "sizeof T_int = 4"
| "sizeof T_double = 8"

datatype repr = Signed_integer nat | Floating_point nat

fun repr_of :: "ctype \<Rightarrow> repr" where
  "repr_of T_char = Signed_integer 8"
| "repr_of T_short = Signed_integer 16"
| "repr_of T_int = Signed_integer 32"
| "repr_of T_double = Floating_point 64"

text \<open>
  What the dispatcher reads of a \<^verbatim>\<open>BigMatrix\<close> (a class of the bigmemory package):
  \<^verbatim>\<open>matrix_type()\<close>, \<^verbatim>\<open>nrow()\<close>, \<^verbatim>\<open>ncol()\<close> and \<^verbatim>\<open>matrix()\<close>. The type code is
  stored into an \<^verbatim>\<open>unsigned int\<close>, so it is kept as the 32-bit pattern that the
  comparisons see. Row and column counts are natural numbers; the conversion from
  bigmemory's index type to Armadillo's is taken to keep them.
\<close>

record BigMatrix =
  matrix_type :: "32 word"
  nrow :: nat
  ncol :: nat
  matrix :: addr

text \<open>
  An \<^verbatim>\<open>arma::Mat\<close> either owns its elements or uses auxiliary memory at an address; in
  the second case it remembers whether it is bound to that memory (\<^verbatim>\<open>strict\<close>).
\<close>

datatype storage = Own_mem "byte list" | Aux_mem addr bool

record Mat =
  eT :: ctype
  n_rows :: nat
  n_cols :: nat
  n_elem :: nat
  mem :: storage

text \<open>
  The state a call runs in: the external pointers that resolve to a \<^verbatim>\<open>BigMatrix\<close>, the
  bytes of memory, and whatever other global state the process has.
\<close>

record 'g world =
  extptr :: "SEXP \<Rightarrow> BigMatrix option"
  heap :: "addr \<Rightarrow> byte"
  globals :: 'g

datatype error = Invalid_handle | Rcpp_exception string

subsection \<open>The matrix constructor\<close>

definition load :: "(addr \<Rightarrow> byte) \<Rightarrow> addr \<Rightarrow> nat \<Rightarrow> byte list" where
  "load h a n = map h [a ..< a + n]"

text \<open>
  Modelled from the spec: the constructor
  \<^verbatim>\<open>Mat(aux_mem, n_rows, n_cols, copy_aux_mem, strict)\<close>, which is Armadillo's and not
  in the file. It is the one the source's comment calls the advanced constructor. With
  \<^verbatim>\<open>copy_aux_mem\<close> the matrix copies the elements into memory of its own; without it
  the matrix uses the auxiliary memory directly (the comment: it casts this memory), and
  the view is the address with the row and column counts and the \<^verbatim>\<open>strict\<close> flag.
\<close>

definition Mat_aux :: "ctype \<Rightarrow> (addr \<Rightarrow> byte) \<Rightarrow> addr \<Rightarrow> nat \<Rightarrow> nat \<Rightarrow> bool \<Rightarrow> bool \<Rightarrow> Mat" where
  "Mat_aux T h aux_mem aux_n_rows aux_n_cols copy_aux_mem strict =
     \<lparr> eT = T, n_rows = aux_n_rows, n_cols = aux_n_cols,
       n_elem = aux_n_rows * aux_n_cols,
       mem = (if copy_aux_mem
              then Own_mem (load h aux_mem (aux_n_rows * aux_n_cols * sizeof T))
              else Aux_mem aux_mem strict) \<rparr>"

subsection \<open>The two functions\<close>

text \<open>
  A downstream computation receives the template argument and the matrix (by constant
  reference: it cannot hand back a changed matrix) and may change the world.
\<close>

type_synonym 'g downstream = "ctype \<Rightarrow> Mat \<Rightarrow> 'g world \<Rightarrow> 'g world"

text \<open>The template of the source. Its body is a comment.\<close>

definition someArmaFunction_T :: "'g downstream" where
  "someArmaFunction_T T aBigMat w = w"

text \<open>
  The dispatcher, over the computation it forwards to. The source's branches read the
  pointer under the name \<^verbatim>\<open>xpDat\<close> while the file declares \<^verbatim>\<open>xpMat\<close> only; both are
  the one resolved pointer here. Each branch passes \<^verbatim>\<open>false\<close> as fourth constructor
  argument (\<^verbatim>\<open>copy_aux_mem\<close>) and leaves \<^verbatim>\<open>strict\<close> at its default, \<^verbatim>\<open>false\<close>.
  A handle that resolves to no \<^verbatim>\<open>BigMatrix\<close> is rejected by \<^verbatim>\<open>XPtr\<close>.
\<close>

definition someArmaFunction_dispatch ::
  "'g downstream \<Rightarrow> SEXP \<Rightarrow> 'g world \<Rightarrow> (error + unit) \<times> 'g world" where
  "someArmaFunction_dispatch f pBigMat w =
     (case extptr w pBigMat of
        None \<Rightarrow> (Inl Invalid_handle, w)
      | Some xpMat \<Rightarrow>
          (let type = matrix_type xpMat in
           if type = 1 then
             (Inr (), f T_char
                (Mat_aux T_char (heap w) (matrix xpMat) (nrow xpMat) (ncol xpMat) False False) w)
           else if type = 2 then
             (Inr (), f T_short
                (Mat_aux T_short (heap w) (matrix xpMat) (nrow xpMat) (ncol xpMat) False False) w)
           else if type = 4 then
             (Inr (), f T_int
                (Mat_aux T_int (heap w) (matrix xpMat) (nrow xpMat) (ncol xpMat) False False) w)
           else if type = 8 then
             (Inr (), f T_double
                (Mat_aux T_double (heap w) (matrix xpMat) (nrow xpMat) (ncol xpMat) False False) w)
           else
             (Inl (Rcpp_exception ''Undefined type for provided big.matrix''), w)))"

text \<open>The exported function as the file has it: the dispatcher over the empty template.\<close>

definition someArmaFunction :: "SEXP \<Rightarrow> 'g world \<Rightarrow> (error + unit) \<times> 'g world" where
  "someArmaFunction pBigMat w = someArmaFunction_dispatch someArmaFunction_T pBigMat w"

subsection \<open>Observing the calls\<close>

text \<open>
  A downstream computation that only records, in the global state, the template argument
  and the matrix of every call it receives; and the calls one dispatch makes, read off that
  record.
\<close>

definition record_call :: "((ctype \<times> Mat) list) downstream" where
  "record_call T aBigMat w = w\<lparr>globals := globals w @ [(T, aBigMat)]\<rparr>"

definition downstream_calls :: "SEXP \<Rightarrow> 'g world \<Rightarrow> (ctype \<times> Mat) list" where
  "downstream_calls pBigMat w =
     globals (snd (someArmaFunction_dispatch record_call pBigMat
       \<lparr>extptr = extptr w, heap = heap w, globals = []\<rparr>))"


subsection \<open>The specification's type table\<close>

text \<open>
  The table as the specification words it: the tags 1, 2, 4 and 8 stand for the 8-bit,
  16-bit and 32-bit signed integers and the 64-bit floating point number; every other
  value is invalid.
\<close>

definition spec_elem_repr :: "32 word \<Rightarrow> repr option" where
  "spec_elem_repr t =
     (if t = 1 then Some (Signed_integer 8)
      else if t = 2 then Some (Signed_integer 16)
      else if t = 4 then Some (Signed_integer 32)
      else if t = 8 then Some (Floating_point 64)
      else None)"

subsection \<open>Reading an element\<close>

text \<open>
  Modelled from the spec: the element access of \<^verbatim>\<open>arma::Mat\<close>, which is code of
  Armadillo and not part of the file. The element at row \<open>r\<close> and column \<open>c\<close> of a
  matrix with \<open>R\<close> rows lives at linear offset \<open>c * R + r\<close>, counted in elements. The
  result is the element's bytes; a position outside the matrix has none.
\<close>

definition Mat_at :: "Mat \<Rightarrow> (addr \<Rightarrow> byte) \<Rightarrow> nat \<Rightarrow> nat \<Rightarrow> byte list option" where
  "Mat_at m h in_row in_col =
     (if in_row < n_rows m \<and> in_col < n_cols m then
        (let i = in_col * n_rows m + in_row; sz = sizeof (eT m) in
         Some (case mem m of
                 Aux_mem a strict \<Rightarrow> load h (a + i * sz) sz
               | Own_mem bs \<Rightarrow> take sz (drop (i * sz) bs)))
      else None)"

subsection \<open>An example\<close>

text \<open>
  The R snippet at the end of the file dispatches on the 2 by 3 integer matrix of the
  numbers 1 to 6. The example world binds handle 7 to a descriptor with a chosen tag and
  shape over the bytes at address 1000.
\<close>

definition example_world :: "32 word \<Rightarrow> nat \<Rightarrow> nat \<Rightarrow> byte list \<Rightarrow> 'g \<Rightarrow> 'g world" where
  "example_world t r c bs g =
     \<lparr> extptr = (\<lambda>p. if p = 7
                    then Some \<lparr>matrix_type = t, nrow = r, ncol = c, matrix = 1000\<rparr>
                    else None),
       heap = (\<lambda>a. if 1000 \<le> a \<and> a < 1000 + length bs then bs ! (a - 1000) else 0),
       globals = g \<rparr>"

definition ints_1_to_6 :: "byte list" where
  "ints_1_to_6 = [1,0,0,0, 2,0,0,0, 3,0,0,0, 4,0,0,0, 5,0,0,0, 6,0,0,0]"

section \<open>Properties\<close>

subsection \<open>Auxiliary facts\<close>

lemma Mat_aux_nocopy:
  "Mat_aux T h a r c False s = \<lparr> eT = T, n_rows = r, n_cols = c, n_elem = r * c, mem = Aux_mem a s \<rparr>"
  by (simp add: Mat_aux_def)

lemma dispatch_valid:
  assumes "extptr w p = Some d" and "matrix_type d \<in> {1, 2, 4, 8}"
  shows "\<exists>T. spec_elem_repr (matrix_type d) = Some (repr_of T) \<and>
             sizeof T = unat (matrix_type d) \<and>
             someArmaFunction_dispatch f p w =
               (Inr (), f T \<lparr> eT = T, n_rows = nrow d, n_cols = ncol d, n_elem = nrow d * ncol d, mem = Aux_mem (matrix d) False \<rparr> w) \<and>
             downstream_calls p w = [(T, \<lparr> eT = T, n_rows = nrow d, n_cols = ncol d, n_elem = nrow d * ncol d, mem = Aux_mem (matrix d) False \<rparr>)]"
proof -
  from assms(2) consider "matrix_type d = 1" | "matrix_type d = 2"
    | "matrix_type d = 4" | "matrix_type d = 8"
    by auto
  then show ?thesis
  proof cases
    case 1
    with assms(1) show ?thesis
      by (intro exI [of _ T_char])
        (simp add: someArmaFunction_dispatch_def downstream_calls_def record_call_def
          spec_elem_repr_def Mat_aux_nocopy)
  next
    case 2
    with assms(1) show ?thesis
      by (intro exI [of _ T_short])
        (simp add: someArmaFunction_dispatch_def downstream_calls_def record_call_def
          spec_elem_repr_def Mat_aux_nocopy)
  next
    case 3
    with assms(1) show ?thesis
      by (intro exI [of _ T_int])
        (simp add: someArmaFunction_dispatch_def downstream_calls_def record_call_def
          spec_elem_repr_def Mat_aux_nocopy)
  next
    case 4
    with assms(1) show ?thesis
      by (intro exI [of _ T_double])
        (simp add: someArmaFunction_dispatch_def downstream_calls_def record_call_def
          spec_elem_repr_def Mat_aux_nocopy)
  qed
qed

lemma dispatch_invalid:
  assumes "extptr w p = Some d" and "matrix_type d \<notin> {1, 2, 4, 8}"
  shows "someArmaFunction_dispatch f p w =
           (Inl (Rcpp_exception ''Undefined type for provided big.matrix''), w) \<and>
         downstream_calls p w = [] \<and> spec_elem_repr (matrix_type d) = None"
  using assms
  by (simp add: someArmaFunction_dispatch_def downstream_calls_def spec_elem_repr_def)

lemma dispatch_unresolved:
  assumes "extptr w p = None"
  shows "someArmaFunction_dispatch f p w = (Inl Invalid_handle, w) \<and> downstream_calls p w = []"
  using assms
  by (simp add: someArmaFunction_dispatch_def downstream_calls_def)

lemma repr_of_inj: "repr_of T = repr_of T' \<Longrightarrow> T = T'"
  by (cases T; cases T') simp_all

lemma take_drop_concat_uniform:
  assumes "\<forall>e\<in>set es. length e = sz" and "i < length es"
  shows "take sz (drop (i * sz) (concat es)) = es ! i"
  using assms
proof (induction es arbitrary: i)
  case Nil
  then show ?case by simp
next
  case (Cons e es)
  show ?case
  proof (cases i)
    case 0
    with Cons.prems show ?thesis by simp
  next
    case (Suc k)
    with Cons.prems have "take sz (drop (k * sz) (concat es)) = es ! k"
      by (intro Cons.IH) simp_all
    with Suc Cons.prems show ?thesis by (simp add: add.commute)
  qed
qed

lemma load_add: "load h (a + k) n = take n (drop k (load h a (k + n)))"
  by (simp add: load_def list_eq_iff_nth_eq add.assoc)

lemma load_take: "n \<le> m \<Longrightarrow> take n (load h a m) = load h a n"
  by (simp add: load_def list_eq_iff_nth_eq)

lemma load_element:
  assumes "load h a (n * sz) = concat es" and "\<forall>e\<in>set es. length e = sz"
    and "length es = n" and "i < n"
  shows "load h (a + i * sz) sz = es ! i"
proof -
  from assms(4) have "Suc i \<le> n" by simp
  then have le: "i * sz + sz \<le> n * sz"
    by (metis mult_Suc mult_le_mono1 add.commute)
  have "load h (a + i * sz) sz = take sz (drop (i * sz) (load h a (i * sz + sz)))"
    by (rule load_add)
  also have "load h a (i * sz + sz) = take (i * sz + sz) (load h a (n * sz))"
    using le by (simp add: load_take)
  also have "take sz (drop (i * sz) (take (i * sz + sz) (load h a (n * sz))))
      = take sz (drop (i * sz) (load h a (n * sz)))"
    by (simp add: drop_take)
  also have "\<dots> = es ! i"
    using assms by (simp add: take_drop_concat_uniform)
  finally show ?thesis .
qed

subsection \<open>Dispatch on a valid tag\<close>

text \<open>
  Claim C1. When the handle resolves to a descriptor whose type tag is 1, 2, 4 or 8, the
  dispatcher picks one element type by the tag's value: \<^verbatim>\<open>char\<close> for 1, \<^verbatim>\<open>short\<close>
  for 2, \<^verbatim>\<open>int\<close> for 4 and \<^verbatim>\<open>double\<close> for 8, whose representations are the ones
  the specification's table gives for the tag. It returns normally, the final world is the
  result of one application of the downstream computation at that element type to the
  initial world, and the record of calls holds exactly that one call.
\<close>

theorem dispatch_selects_element_type:
  assumes "extptr w p = Some d" and "matrix_type d \<in> {1, 2, 4, 8}"
  shows "\<exists>T. spec_elem_repr (matrix_type d) = Some (repr_of T) \<and>
             (matrix_type d = 1 \<longrightarrow> T = T_char) \<and>
             (matrix_type d = 2 \<longrightarrow> T = T_short) \<and>
             (matrix_type d = 4 \<longrightarrow> T = T_int) \<and>
             (matrix_type d = 8 \<longrightarrow> T = T_double) \<and>
             someArmaFunction_dispatch f p w =
               (Inr (), f T (Mat_aux T (heap w) (matrix d) (nrow d) (ncol d) False False) w) \<and>
             downstream_calls p w =
               [(T, Mat_aux T (heap w) (matrix d) (nrow d) (ncol d) False False)]"
proof -
  from dispatch_valid [OF assms, of f] obtain T where
    r: "spec_elem_repr (matrix_type d) = Some (repr_of T)" and
    f: "someArmaFunction_dispatch f p w =
         (Inr (), f T \<lparr> eT = T, n_rows = nrow d, n_cols = ncol d,
            n_elem = nrow d * ncol d, mem = Aux_mem (matrix d) False \<rparr> w)" and
    c: "downstream_calls p w =
         [(T, \<lparr> eT = T, n_rows = nrow d, n_cols = ncol d,
            n_elem = nrow d * ncol d, mem = Aux_mem (matrix d) False \<rparr>)]"
    by blast
  have "matrix_type d = 1 \<longrightarrow> T = T_char"
    using r by (cases T) (auto simp: spec_elem_repr_def split: if_splits)
  moreover have "matrix_type d = 2 \<longrightarrow> T = T_short"
    using r by (cases T) (auto simp: spec_elem_repr_def split: if_splits)
  moreover have "matrix_type d = 4 \<longrightarrow> T = T_int"
    using r by (cases T) (auto simp: spec_elem_repr_def split: if_splits)
  moreover have "matrix_type d = 8 \<longrightarrow> T = T_double"
    using r by (cases T) (auto simp: spec_elem_repr_def split: if_splits)
  ultimately show ?thesis
    using r f c by (intro exI [of _ T]) (simp add: Mat_aux_nocopy)
qed

text \<open>
  The R snippet's matrix: tag 4 selects \<^verbatim>\<open>int\<close>, a 32-bit signed integer, and the one
  call receives the 2 by 3 matrix over address 1000.
\<close>

theorem dispatch_selects_element_type_witness:
  "extptr (example_world 4 2 3 ints_1_to_6 ()) 7
     = Some \<lparr>matrix_type = 4, nrow = 2, ncol = 3, matrix = 1000\<rparr> \<and>
   (4 :: 32 word) \<in> {1, 2, 4, 8} \<and>
   spec_elem_repr 4 = Some (Signed_integer 32) \<and>
   someArmaFunction 7 (example_world 4 2 3 ints_1_to_6 ())
     = (Inr (), example_world 4 2 3 ints_1_to_6 ()) \<and>
   downstream_calls 7 (example_world 4 2 3 ints_1_to_6 ())
     = [(T_int, \<lparr> eT = T_int, n_rows = 2, n_cols = 3, n_elem = 6, mem = Aux_mem 1000 False \<rparr>)]"
proof -
  let ?d = "\<lparr>matrix_type = 4, nrow = 2, ncol = 3, matrix = 1000\<rparr>"
  let ?w = "example_world 4 2 3 ints_1_to_6 ()"
  have h1: "extptr ?w 7 = Some ?d" by (simp add: example_world_def)
  have h2: "matrix_type ?d \<in> {1, 2, 4, 8}" by simp
  from dispatch_selects_element_type [OF h1 h2, of someArmaFunction_T]
  show ?thesis
    using h1 by (auto simp: someArmaFunction_def someArmaFunction_T_def Mat_aux_nocopy)
qed

subsection \<open>Dispatch on an invalid tag\<close>

text \<open>
  Claim C2. When the handle resolves to a descriptor whose type tag is none of 1, 2, 4
  and 8, the dispatcher throws an \<^verbatim>\<open>Rcpp::exception\<close>, the world is the initial one
  whatever the downstream computation would do, no call is recorded, and the
  specification's table has no element type for the tag.
\<close>

theorem invalid_tag_raises_without_call:
  assumes "extptr w p = Some d" and "matrix_type d \<notin> {1, 2, 4, 8}"
  shows "(\<exists>msg. fst (someArmaFunction_dispatch f p w) = Inl (Rcpp_exception msg)) \<and>
         snd (someArmaFunction_dispatch f p w) = w \<and>
         downstream_calls p w = [] \<and>
         spec_elem_repr (matrix_type d) = None"
  using dispatch_invalid [OF assms, of f] by simp

text \<open>Tag 3 on the example matrix: the exception, the world untouched, no call.\<close>

theorem invalid_tag_raises_without_call_witness:
  "extptr (example_world 3 2 3 ints_1_to_6 ()) 7
     = Some \<lparr>matrix_type = 3, nrow = 2, ncol = 3, matrix = 1000\<rparr> \<and>
   (3 :: 32 word) \<notin> {1, 2, 4, 8} \<and>
   someArmaFunction 7 (example_world 3 2 3 ints_1_to_6 ())
     = (Inl (Rcpp_exception ''Undefined type for provided big.matrix''),
        example_world 3 2 3 ints_1_to_6 ()) \<and>
   downstream_calls 7 (example_world 3 2 3 ints_1_to_6 ()) = []"
proof -
  let ?d = "\<lparr>matrix_type = 3, nrow = 2, ncol = 3, matrix = 1000\<rparr>"
  let ?w = "example_world 3 2 3 ints_1_to_6 ()"
  have h1: "extptr ?w 7 = Some ?d" by (simp add: example_world_def)
  have h2: "matrix_type ?d \<notin> {1, 2, 4, 8}" by simp
  have "someArmaFunction 7 ?w
     = (Inl (Rcpp_exception ''Undefined type for provided big.matrix''), ?w)"
    by (simp add: someArmaFunction_def someArmaFunction_dispatch_def example_world_def)
  with invalid_tag_raises_without_call [OF h1 h2, of someArmaFunction_T]
  show ?thesis using h1 by simp
qed

subsection \<open>The matrix handed down\<close>

text \<open>
  Claim C3. On a valid tag the one matrix handed to the downstream computation uses the
  descriptor's memory by its address, with the descriptor's row and column counts. It is
  the matrix the constructor builds with \<^verbatim>\<open>copy_aux_mem = false\<close>, which differs from
  the one that would own a copy of the bytes, and the exported function leaves the heap as
  it was.
\<close>

theorem view_aliases_buffer:
  assumes "extptr w p = Some d" and "matrix_type d \<in> {1, 2, 4, 8}"
  shows "\<exists>T V. downstream_calls p w = [(T, V)] \<and>
               someArmaFunction_dispatch f p w = (Inr (), f T V w) \<and>
               mem V = Aux_mem (matrix d) False \<and>
               n_rows V = nrow d \<and> n_cols V = ncol d \<and>
               V = Mat_aux T (heap w) (matrix d) (nrow d) (ncol d) False False \<and>
               V \<noteq> Mat_aux T (heap w) (matrix d) (nrow d) (ncol d) True False \<and>
               heap (snd (someArmaFunction p w)) = heap w"
proof -
  from dispatch_valid [OF assms, of f] obtain T where
    f: "someArmaFunction_dispatch f p w =
         (Inr (), f T \<lparr> eT = T, n_rows = nrow d, n_cols = ncol d,
            n_elem = nrow d * ncol d, mem = Aux_mem (matrix d) False \<rparr> w)" and
    c: "downstream_calls p w =
         [(T, \<lparr> eT = T, n_rows = nrow d, n_cols = ncol d,
            n_elem = nrow d * ncol d, mem = Aux_mem (matrix d) False \<rparr>)]"
    by blast
  from dispatch_valid [OF assms, of someArmaFunction_T]
  have "snd (someArmaFunction p w) = w"
    by (auto simp: someArmaFunction_def someArmaFunction_T_def)
  with f c show ?thesis
    by (simp add: Mat_aux_def)
qed

text \<open>The example matrix again: the view sits at address 1000 with 2 rows and 3 columns.\<close>

theorem view_aliases_buffer_witness:
  "extptr (example_world 4 2 3 ints_1_to_6 ()) 7
     = Some \<lparr>matrix_type = 4, nrow = 2, ncol = 3, matrix = 1000\<rparr> \<and>
   (4 :: 32 word) \<in> {1, 2, 4, 8} \<and>
   (\<exists>T V. downstream_calls 7 (example_world 4 2 3 ints_1_to_6 ()) = [(T, V)] \<and>
      mem V = Aux_mem 1000 False \<and> n_rows V = 2 \<and> n_cols V = 3)"
proof -
  let ?d = "\<lparr>matrix_type = 4, nrow = 2, ncol = 3, matrix = 1000\<rparr>"
  let ?w = "example_world 4 2 3 ints_1_to_6 ()"
  have h1: "extptr ?w 7 = Some ?d" by (simp add: example_world_def)
  have h2: "matrix_type ?d \<in> {1, 2, 4, 8}" by simp
  from view_aliases_buffer [OF h1 h2, of someArmaFunction_T]
  show ?thesis using h1 by auto
qed

subsection \<open>The exception's message\<close>

text \<open>
  Claim C4, as the specification states it, asks that the failure on an invalid tag names
  the tag that was met. It does not: the tags 3 and 5 fail with the same exception, whose
  message is one fixed text.
\<close>

theorem invalid_tag_message_names_tag_counterexample:
  "fst (someArmaFunction 7 (example_world 3 2 3 ints_1_to_6 ()))
     = Inl (Rcpp_exception ''Undefined type for provided big.matrix'') \<and>
   fst (someArmaFunction 7 (example_world 5 2 3 ints_1_to_6 ()))
     = Inl (Rcpp_exception ''Undefined type for provided big.matrix'') \<and>
   (3 :: 32 word) \<noteq> 5"
  by (simp add: someArmaFunction_def someArmaFunction_dispatch_def example_world_def)

text \<open>
  Claim C4, amended. On every invalid tag the dispatcher fails at once, with the world
  untouched, and the exception's message is the fixed text
  \<^verbatim>\<open>Undefined type for provided big.matrix\<close>; two failures are the same whatever
  their tags are.
\<close>

theorem invalid_tag_fixed_message:
  assumes "extptr w p = Some d" and "matrix_type d \<notin> {1, 2, 4, 8}"
    and "extptr w' p' = Some d'" and "matrix_type d' \<notin> {1, 2, 4, 8}"
  shows "someArmaFunction_dispatch f p w
           = (Inl (Rcpp_exception ''Undefined type for provided big.matrix''), w) \<and>
         fst (someArmaFunction_dispatch f' p' w') = fst (someArmaFunction_dispatch f p w)"
  using dispatch_invalid [OF assms(1,2), of f] dispatch_invalid [OF assms(3,4), of f']
  by simp

text \<open>Tags 3 and 5, on matrices of different shapes.\<close>

theorem invalid_tag_fixed_message_witness:
  "extptr (example_world 3 2 3 ints_1_to_6 ()) 7
     = Some \<lparr>matrix_type = 3, nrow = 2, ncol = 3, matrix = 1000\<rparr> \<and>
   (3 :: 32 word) \<notin> {1, 2, 4, 8} \<and>
   extptr (example_world 5 0 1 [] ()) 7
     = Some \<lparr>matrix_type = 5, nrow = 0, ncol = 1, matrix = 1000\<rparr> \<and>
   (5 :: 32 word) \<notin> {1, 2, 4, 8} \<and>
   someArmaFunction_dispatch someArmaFunction_T 7 (example_world 3 2 3 ints_1_to_6 ())
     = (Inl (Rcpp_exception ''Undefined type for provided big.matrix''),
        example_world 3 2 3 ints_1_to_6 ()) \<and>
   fst (someArmaFunction_dispatch someArmaFunction_T 7 (example_world 5 0 1 [] ()))
     = fst (someArmaFunction_dispatch someArmaFunction_T 7 (example_world 3 2 3 ints_1_to_6 ()))"
proof -
  let ?d = "\<lparr>matrix_type = 3, nrow = 2, ncol = 3, matrix = 1000\<rparr>"
  let ?w = "example_world 3 2 3 ints_1_to_6 ()"
  let ?d' = "\<lparr>matrix_type = 5, nrow = 0, ncol = 1, matrix = 1000\<rparr>"
  let ?w' = "example_world 5 0 1 [] ()"
  have h1: "extptr ?w 7 = Some ?d" by (simp add: example_world_def)
  have h2: "matrix_type ?d \<notin> {1, 2, 4, 8}" by simp
  have h3: "extptr ?w' 7 = Some ?d'" by (simp add: example_world_def)
  have h4: "matrix_type ?d' \<notin> {1, 2, 4, 8}" by simp
  from invalid_tag_fixed_message [OF h1 h2 h3 h4, of someArmaFunction_T someArmaFunction_T]
  show ?thesis using h1 h3 by simp
qed

subsection \<open>The constructor's flags\<close>




subsection \<open>Column-major reading\<close>

text \<open>
  Claim C6. Let the buffer of a descriptor with a valid tag hold the elements \<open>es\<close>, one
  after another, each as many bytes wide as the tag says. Then the matrix handed to the
  downstream computation reads, at row \<open>r\<close> and column \<open>c\<close> inside its bounds, the element
  at linear offset \<open>c * nrow + r\<close> of the buffer.
\<close>

theorem view_reads_column_major:
  assumes "extptr w p = Some d" and "matrix_type d \<in> {1, 2, 4, 8}"
    and "length es = nrow d * ncol d"
    and "\<forall>e\<in>set es. length e = unat (matrix_type d)"
    and "load (heap w) (matrix d) (nrow d * ncol d * unat (matrix_type d)) = concat es"
    and "r < nrow d" and "c < ncol d"
  shows "\<exists>T V. downstream_calls p w = [(T, V)] \<and>
               Mat_at V (heap w) r c = Some (es ! (c * nrow d + r))"
proof -
  from dispatch_valid [OF assms(1,2), of someArmaFunction_T] obtain T where
    sz: "sizeof T = unat (matrix_type d)" and
    c: "downstream_calls p w =
         [(T, \<lparr> eT = T, n_rows = nrow d, n_cols = ncol d,
            n_elem = nrow d * ncol d, mem = Aux_mem (matrix d) False \<rparr>)]"
    by blast
  have "c * nrow d + r < nrow d * ncol d"
  proof -
    from assms(7) have "Suc c \<le> ncol d" by simp
    then have "Suc c * nrow d \<le> ncol d * nrow d" by (rule mult_le_mono1)
    with assms(6) show ?thesis by (simp add: mult.commute)
  qed
  with assms(3-5) sz
  have "load (heap w) (matrix d + (c * nrow d + r) * sizeof T) (sizeof T)
      = es ! (c * nrow d + r)"
    by (intro load_element [where n = "nrow d * ncol d"]) simp_all
  with c assms(6,7) show ?thesis
    by (simp add: Mat_at_def)
qed

text \<open>
  The buffer of the integers 1 to 6 viewed as a 2 by 3 matrix: row 0, column 1 reads the
  bytes of 3, and row 1, column 2 reads the bytes of 6.
\<close>

theorem view_reads_column_major_witness:
  "\<exists>V. downstream_calls 7 (example_world 4 2 3 ints_1_to_6 ()) = [(T_int, V)] \<and>
       Mat_at V (heap (example_world 4 2 3 ints_1_to_6 ())) 0 1 = Some [3, 0, 0, 0] \<and>
       Mat_at V (heap (example_world 4 2 3 ints_1_to_6 ())) 1 2 = Some [6, 0, 0, 0]"
proof -
  let ?d = "\<lparr>matrix_type = 4, nrow = 2, ncol = 3, matrix = 1000\<rparr>"
  let ?w = "example_world 4 2 3 ints_1_to_6 ()"
  let ?es = "[[1, 0, 0, 0], [2, 0, 0, 0], [3, 0, 0, 0], [4, 0, 0, 0], [5, 0, 0, 0],
              [6, 0, 0, 0]] :: byte list list"
  have h1: "extptr ?w 7 = Some ?d" by (simp add: example_world_def)
  have h2: "matrix_type ?d \<in> {1, 2, 4, 8}" by simp
  have h3: "length ?es = nrow ?d * ncol ?d" by simp
  have h4: "\<forall>e\<in>set ?es. length e = unat (matrix_type ?d)" by simp
  have h5: "load (heap ?w) (matrix ?d) (nrow ?d * ncol ?d * unat (matrix_type ?d)) = concat ?es"
    by (simp add: example_world_def load_def ints_1_to_6_def upt_rec)
  have a: "(0::nat) < nrow ?d" and b: "(1::nat) < ncol ?d"
    and a': "(1::nat) < nrow ?d" and b': "(2::nat) < ncol ?d" by simp_all
  have k: "downstream_calls 7 ?w =
      [(T_int, \<lparr> eT = T_int, n_rows = 2, n_cols = 3, n_elem = 6, mem = Aux_mem 1000 False \<rparr>)]"
    by (simp add: downstream_calls_def someArmaFunction_dispatch_def record_call_def
      example_world_def Mat_aux_nocopy)
  from view_reads_column_major [OF h1 h2 h3 h4 h5 a b]
       view_reads_column_major [OF h1 h2 h3 h4 h5 a' b'] k
  show ?thesis
    by simp
qed

subsection \<open>Empty matrices\<close>

text \<open>
  Claim C7. When the descriptor has a valid tag and no rows or no columns, the dispatcher
  returns normally, and the downstream computation is called once, on a matrix with the
  descriptor's counts and no element.
\<close>

theorem empty_matrix_dispatch:
  assumes "extptr w p = Some d" and "matrix_type d \<in> {1, 2, 4, 8}"
    and "nrow d = 0 \<or> ncol d = 0"
  shows "\<exists>T V. someArmaFunction_dispatch f p w = (Inr (), f T V w) \<and>
               downstream_calls p w = [(T, V)] \<and>
               n_rows V = nrow d \<and> n_cols V = ncol d \<and> n_elem V = 0 \<and>
               fst (someArmaFunction p w) = Inr ()"
proof -
  from dispatch_valid [OF assms(1,2), of f] obtain T where
    f: "someArmaFunction_dispatch f p w =
         (Inr (), f T \<lparr> eT = T, n_rows = nrow d, n_cols = ncol d,
            n_elem = nrow d * ncol d, mem = Aux_mem (matrix d) False \<rparr> w)" and
    c: "downstream_calls p w =
         [(T, \<lparr> eT = T, n_rows = nrow d, n_cols = ncol d,
            n_elem = nrow d * ncol d, mem = Aux_mem (matrix d) False \<rparr>)]"
    by blast
  from dispatch_valid [OF assms(1,2), of someArmaFunction_T]
  have "fst (someArmaFunction p w) = Inr ()"
    by (auto simp: someArmaFunction_def)
  moreover from assms(3) have "nrow d * ncol d = 0" by auto
  ultimately show ?thesis
    using f c by simp
qed

text \<open>A matrix of \<^verbatim>\<open>char\<close> with no rows and three columns.\<close>

theorem empty_matrix_dispatch_witness:
  "extptr (example_world 1 0 3 [] ()) 7
     = Some \<lparr>matrix_type = 1, nrow = 0, ncol = 3, matrix = 1000\<rparr> \<and>
   (1 :: 32 word) \<in> {1, 2, 4, 8} \<and>
   fst (someArmaFunction 7 (example_world 1 0 3 [] ())) = Inr () \<and>
   (\<exists>T V. downstream_calls 7 (example_world 1 0 3 [] ()) = [(T, V)] \<and>
      n_rows V = 0 \<and> n_cols V = 3 \<and> n_elem V = 0)"
proof -
  let ?d = "\<lparr>matrix_type = 1, nrow = 0, ncol = 3, matrix = 1000\<rparr>"
  let ?w = "example_world 1 0 3 [] ()"
  have h1: "extptr ?w 7 = Some ?d" by (simp add: example_world_def)
  have h2: "matrix_type ?d \<in> {1, 2, 4, 8}" by simp
  have h3: "nrow ?d = 0 \<or> ncol ?d = 0" by simp
  from empty_matrix_dispatch [OF h1 h2 h3, of someArmaFunction_T]
  show ?thesis using h1 by auto
qed

subsection \<open>Effects\<close>

text \<open>
  Claim C8. For every handle, the exported function leaves the world as it found it:
  descriptors, memory and global state. Over any downstream computation, the final world
  is the initial one changed by that computation's recorded calls and by nothing else, and
  a dispatch that fails has changed nothing and called nothing.
\<close>

theorem dispatch_frame:
  "snd (someArmaFunction p w) = w \<and>
   snd (someArmaFunction_dispatch f p w)
     = foldl (\<lambda>s (T, V). f T V s) w (downstream_calls p w) \<and>
   (\<forall>e. fst (someArmaFunction_dispatch f p w) = Inl e \<longrightarrow>
      snd (someArmaFunction_dispatch f p w) = w \<and> downstream_calls p w = [])"
proof (cases "extptr w p")
  case None
  from dispatch_unresolved [OF None, of f] dispatch_unresolved [OF None, of someArmaFunction_T]
  show ?thesis
    by (simp add: someArmaFunction_def)
next
  case (Some d)
  show ?thesis
  proof (cases "matrix_type d \<in> {1, 2, 4, 8}")
    case True
    from dispatch_valid [OF Some True, of f] dispatch_valid [OF Some True, of someArmaFunction_T]
    show ?thesis
      by (auto simp: someArmaFunction_def someArmaFunction_T_def)
  next
    case False
    from dispatch_invalid [OF Some False, of f]
      dispatch_invalid [OF Some False, of someArmaFunction_T]
    show ?thesis
      by (simp add: someArmaFunction_def)
  qed
qed

text \<open>
  A failing dispatch over the recording computation, and the exported function on the
  example matrix: both worlds are the initial ones.
\<close>

theorem dispatch_frame_witness:
  "fst (someArmaFunction_dispatch record_call 7 (example_world 3 2 3 ints_1_to_6 []))
     = Inl (Rcpp_exception ''Undefined type for provided big.matrix'') \<and>
   snd (someArmaFunction_dispatch record_call 7 (example_world 3 2 3 ints_1_to_6 []))
     = example_world 3 2 3 ints_1_to_6 [] \<and>
   snd (someArmaFunction 7 (example_world 4 2 3 ints_1_to_6 ()))
     = example_world 4 2 3 ints_1_to_6 ()"
proof -
  let ?w = "example_world 3 2 3 ints_1_to_6 ([] :: (ctype \<times> Mat) list)"
  have e: "fst (someArmaFunction_dispatch record_call 7 ?w)
     = Inl (Rcpp_exception ''Undefined type for provided big.matrix'')"
    by (simp add: someArmaFunction_dispatch_def example_world_def)
  from dispatch_frame [of 7 ?w record_call] e
    dispatch_frame [of 7 "example_world 4 2 3 ints_1_to_6 ()" someArmaFunction_T]
  show ?thesis by simp
qed

subsection \<open>Dispatching twice\<close>

text \<open>
  Claim C9. Take a descriptor with a valid tag that the first dispatch leaves in place.
  Then the second dispatch hands down the same matrix as the first: the same address, row
  count and column count, which are the descriptor's. This holds after any downstream
  computation, after the exported function, and for two dispatches in a row over the
  recording computation, whose record then holds the same call twice.
\<close>

theorem sequential_dispatch_same_view:
  assumes "extptr w p = Some d" and "matrix_type d \<in> {1, 2, 4, 8}"
    and "extptr (snd (someArmaFunction_dispatch f p w)) p = Some d"
  shows "\<exists>T V. downstream_calls p w = [(T, V)] \<and>
               downstream_calls p (snd (someArmaFunction_dispatch f p w)) = [(T, V)] \<and>
               downstream_calls p (snd (someArmaFunction p w)) = [(T, V)] \<and>
               globals (snd (someArmaFunction_dispatch record_call p
                 (snd (someArmaFunction_dispatch record_call p
                    \<lparr>extptr = extptr w, heap = heap w, globals = []\<rparr>)))) = [(T, V), (T, V)] \<and>
               mem V = Aux_mem (matrix d) False \<and>
               n_rows V = nrow d \<and> n_cols V = ncol d"
proof -
  let ?V = "\<lambda>T. \<lparr> eT = T, n_rows = nrow d, n_cols = ncol d,
            n_elem = nrow d * ncol d, mem = Aux_mem (matrix d) False \<rparr>"
  let ?w0 = "\<lparr>extptr = extptr w, heap = heap w, globals = [] :: (ctype \<times> Mat) list\<rparr>"
  from dispatch_valid [OF assms(1,2), of f] obtain T where
    r: "spec_elem_repr (matrix_type d) = Some (repr_of T)" and
    c: "downstream_calls p w = [(T, ?V T)]"
    by blast
  from dispatch_valid [OF assms(3,2), of f] obtain T' where
    r': "spec_elem_repr (matrix_type d) = Some (repr_of T')" and
    c': "downstream_calls p (snd (someArmaFunction_dispatch f p w)) = [(T', ?V T')]"
    by blast
  from r r' have T': "T' = T" by (simp add: repr_of_inj)
  from dispatch_valid [OF assms(1,2), of someArmaFunction_T]
  have s: "snd (someArmaFunction p w) = w"
    by (auto simp: someArmaFunction_def someArmaFunction_T_def)
  have w0: "extptr ?w0 p = Some d" using assms(1) by simp
  from dispatch_valid [OF w0 assms(2), of record_call] obtain T0 where
    r0: "spec_elem_repr (matrix_type d) = Some (repr_of T0)" and
    f0: "someArmaFunction_dispatch record_call p ?w0 = (Inr (), record_call T0 (?V T0) ?w0)"
    by blast
  from r r0 have T0: "T0 = T" by (simp add: repr_of_inj)
  let ?w1 = "record_call T (?V T) ?w0"
  have w1: "extptr ?w1 p = Some d" using assms(1) by (simp add: record_call_def)
  from dispatch_valid [OF w1 assms(2), of record_call] obtain T1 where
    r1: "spec_elem_repr (matrix_type d) = Some (repr_of T1)" and
    f1: "someArmaFunction_dispatch record_call p ?w1 = (Inr (), record_call T1 (?V T1) ?w1)"
    by blast
  from r r1 have T1: "T1 = T" by (simp add: repr_of_inj)
  have "globals (snd (someArmaFunction_dispatch record_call p
          (snd (someArmaFunction_dispatch record_call p ?w0)))) = [(T, ?V T), (T, ?V T)]"
    using f0 f1 T0 T1 by (simp add: record_call_def)
  with c c' T' s show ?thesis
    by (intro exI [of _ T] exI [of _ "?V T"]) simp
qed

text \<open>Two dispatches in a row on the example matrix record the same call twice.\<close>

theorem sequential_dispatch_same_view_witness:
  "extptr (example_world 4 2 3 ints_1_to_6 ([] :: (ctype \<times> Mat) list)) 7
     = Some \<lparr>matrix_type = 4, nrow = 2, ncol = 3, matrix = 1000\<rparr> \<and>
   (4 :: 32 word) \<in> {1, 2, 4, 8} \<and>
   extptr (snd (someArmaFunction_dispatch record_call 7 (example_world 4 2 3 ints_1_to_6 []))) 7
     = Some \<lparr>matrix_type = 4, nrow = 2, ncol = 3, matrix = 1000\<rparr> \<and>
   globals (snd (someArmaFunction_dispatch record_call 7
     (snd (someArmaFunction_dispatch record_call 7 (example_world 4 2 3 ints_1_to_6 [])))))
     = [(T_int, \<lparr> eT = T_int, n_rows = 2, n_cols = 3, n_elem = 6, mem = Aux_mem 1000 False \<rparr>),
        (T_int, \<lparr> eT = T_int, n_rows = 2, n_cols = 3, n_elem = 6, mem = Aux_mem 1000 False \<rparr>)]"
proof -
  let ?d = "\<lparr>matrix_type = 4, nrow = 2, ncol = 3, matrix = 1000\<rparr>"
  let ?w = "example_world 4 2 3 ints_1_to_6 ([] :: (ctype \<times> Mat) list)"
  have h1: "extptr ?w 7 = Some ?d" by (simp add: example_world_def)
  have h2: "matrix_type ?d \<in> {1, 2, 4, 8}" by simp
  have h3: "extptr (snd (someArmaFunction_dispatch record_call 7 ?w)) 7 = Some ?d"
    by (simp add: someArmaFunction_dispatch_def record_call_def example_world_def)
  have w0: "\<lparr>extptr = extptr ?w, heap = heap ?w, globals = []\<rparr> = ?w"
    by (simp add: example_world_def)
  have k: "downstream_calls 7 ?w =
      [(T_int, \<lparr> eT = T_int, n_rows = 2, n_cols = 3, n_elem = 6, mem = Aux_mem 1000 False \<rparr>)]"
    by (simp add: downstream_calls_def someArmaFunction_dispatch_def record_call_def
      example_world_def Mat_aux_nocopy)
  from sequential_dispatch_same_view [OF h1 h2 h3] k
  show ?thesis using h1 h3 unfolding w0 by auto
qed

subsection \<open>The tag alone decides the branch\<close>

text \<open>
  Claim C10. Two dispatches on descriptors with the same type tag take the same branch:
  they both fail with the same error or both return normally after one call at the same
  element type, whatever the handles, addresses, row counts, column counts, memory
  contents and downstream computations are. The dispatcher is a function of HOL, so two
  runs on the same input are the same.
\<close>

theorem branch_depends_on_tag_only:
  assumes "extptr w1 p1 = Some d1" and "extptr w2 p2 = Some d2"
    and "matrix_type d1 = matrix_type d2"
  shows "fst (someArmaFunction_dispatch f1 p1 w1) = fst (someArmaFunction_dispatch f2 p2 w2) \<and>
         map fst (downstream_calls p1 w1) = map fst (downstream_calls p2 w2) \<and>
         fst (someArmaFunction p1 w1) = fst (someArmaFunction p2 w2)"
proof (cases "matrix_type d1 \<in> {1, 2, 4, 8}")
  case True
  with assms(3) have True': "matrix_type d2 \<in> {1, 2, 4, 8}" by simp
  from dispatch_valid [OF assms(1) True, of f1] obtain T1 where
    r1: "spec_elem_repr (matrix_type d1) = Some (repr_of T1)" and
    o1: "fst (someArmaFunction_dispatch f1 p1 w1) = Inr ()" and
    c1: "map fst (downstream_calls p1 w1) = [T1]"
    by auto
  from dispatch_valid [OF assms(2) True', of f2] obtain T2 where
    r2: "spec_elem_repr (matrix_type d2) = Some (repr_of T2)" and
    o2: "fst (someArmaFunction_dispatch f2 p2 w2) = Inr ()" and
    c2: "map fst (downstream_calls p2 w2) = [T2]"
    by auto
  from r1 r2 assms(3) have "T1 = T2" by (simp add: repr_of_inj)
  moreover from dispatch_valid [OF assms(1) True, of someArmaFunction_T]
    dispatch_valid [OF assms(2) True', of someArmaFunction_T]
  have "fst (someArmaFunction p1 w1) = fst (someArmaFunction p2 w2)"
    by (auto simp: someArmaFunction_def)
  ultimately show ?thesis using o1 o2 c1 c2 by simp
next
  case False
  with assms(3) have False': "matrix_type d2 \<notin> {1, 2, 4, 8}" by simp
  from dispatch_invalid [OF assms(1) False, of f1] dispatch_invalid [OF assms(2) False', of f2]
    dispatch_invalid [OF assms(1) False, of someArmaFunction_T]
    dispatch_invalid [OF assms(2) False', of someArmaFunction_T]
  show ?thesis by (simp add: someArmaFunction_def)
qed

text \<open>
  Tag 2 on the example matrix and on a matrix with other counts, another address, other
  memory and another handle: both go to \<^verbatim>\<open>short\<close>.
\<close>

theorem branch_depends_on_tag_only_witness:
  "extptr (example_world 2 2 3 ints_1_to_6 ()) 7
     = Some \<lparr>matrix_type = 2, nrow = 2, ncol = 3, matrix = 1000\<rparr> \<and>
   extptr \<lparr>extptr = (\<lambda>p. if p = 9
                          then Some \<lparr>matrix_type = 2, nrow = 5, ncol = 0, matrix = 64\<rparr>
                          else None),
           heap = (\<lambda>a. 255), globals = True\<rparr> 9
     = Some \<lparr>matrix_type = 2, nrow = 5, ncol = 0, matrix = 64\<rparr> \<and>
   fst (someArmaFunction 7 (example_world 2 2 3 ints_1_to_6 ()))
     = fst (someArmaFunction 9
         \<lparr>extptr = (\<lambda>p. if p = 9
                          then Some \<lparr>matrix_type = 2, nrow = 5, ncol = 0, matrix = 64\<rparr>
                          else None),
           heap = (\<lambda>a. 255), globals = True\<rparr>) \<and>
   map fst (downstream_calls 7 (example_world 2 2 3 ints_1_to_6 ())) = [T_short] \<and>
   map fst (downstream_calls 9
         \<lparr>extptr = (\<lambda>p. if p = 9
                          then Some \<lparr>matrix_type = 2, nrow = 5, ncol = 0, matrix = 64\<rparr>
                          else None),
           heap = (\<lambda>a. 255), globals = True\<rparr>) = [T_short]"
proof -
  let ?d1 = "\<lparr>matrix_type = 2, nrow = 2, ncol = 3, matrix = 1000\<rparr>"
  let ?w1 = "example_world 2 2 3 ints_1_to_6 ()"
  let ?d2 = "\<lparr>matrix_type = 2, nrow = 5, ncol = 0, matrix = 64\<rparr>"
  let ?w2 = "\<lparr>extptr = (\<lambda>p. if p = 9 then Some ?d2 else None),
           heap = (\<lambda>a. 255), globals = True\<rparr>"
  have h1: "extptr ?w1 7 = Some ?d1" by (simp add: example_world_def)
  have h2: "extptr ?w2 9 = Some ?d2" by simp
  have h3: "matrix_type ?d1 = matrix_type ?d2" by simp
  have k: "map fst (downstream_calls 7 ?w1) = [T_short]"
    by (simp add: downstream_calls_def someArmaFunction_dispatch_def record_call_def
      example_world_def)
  from branch_depends_on_tag_only [OF h1 h2 h3, of someArmaFunction_T someArmaFunction_T] k
  show ?thesis using h1 by simp
qed

end
